theory Spec2Isabelle
  imports Main
begin

section \<open>Strings\<close>

text \<open>
  JavaScript strings are modelled as \<open>string\<close> (lists of 8-bit characters), which covers
  ASCII text. \<open>String.prototype.trim\<close> removes white space and line terminators from both
  ends; on ASCII these are space, tab, line feed, vertical tab, form feed and carriage
  return. \<open>String.prototype.toLowerCase\<close> maps \<open>A\<close>..\<open>Z\<close> to \<open>a\<close>..\<open>z\<close> and leaves every other
  ASCII character alone. Characters above 0x7F are not interpreted: the model leaves
  them unchanged and never treats them as white space.
\<close>

definition isWhiteSpace :: "char \<Rightarrow> bool" where
  "isWhiteSpace c \<longleftrightarrow>
     c = CHR 0x20 \<or> c = CHR 0x09 \<or> c = CHR 0x0A \<or> c = CHR 0x0B \<or> c = CHR 0x0C \<or> c = CHR 0x0D"

definition trim :: "string \<Rightarrow> string" where
  "trim s = rev (dropWhile isWhiteSpace (rev (dropWhile isWhiteSpace s)))"

definition upper_letters :: string where
  "upper_letters = ''ABCDEFGHIJKLMNOPQRSTUVWXYZ''"

definition lower_letters :: string where
  "lower_letters = ''abcdefghijklmnopqrstuvwxyz''"

definition lower_char :: "char \<Rightarrow> char" where
  "lower_char c = (case map_of (zip upper_letters lower_letters) c of None \<Rightarrow> c | Some l \<Rightarrow> l)"

definition toLowerCase :: "string \<Rightarrow> string" where
  "toLowerCase s = map lower_char s"

section \<open>Query normalisation (fetchWeather, lines 40-41)\<close>

text \<open>
  \<^verbatim>\<open>let searchCity = query.trim().toLowerCase();\<close>
  \<^verbatim>\<open>if (searchCity === 'banglore') searchCity = 'bangalore';\<close>
\<close>

definition searchCity :: "string \<Rightarrow> string" where
  "searchCity query =
     (let s = toLowerCase (trim query) in if s = ''banglore'' then ''bangalore'' else s)"

section \<open>HTTP requests and responses\<close>

text \<open>
  An \<^verbatim>\<open>axios.get(url, {params})\<close> call is a URL and the list of query parameters in the
  order the object literal gives them; parameter values are their serialised text (the
  numbers \<open>1\<close> and \<open>3\<close> of \<open>hourly\<close> and \<open>interval\<close> are sent as \<open>1\<close> and \<open>3\<close>).
\<close>

record request =
  url :: string
  params :: "(string \<times> string) list"

text \<open>
  The upstream body, as far as \<open>fetchWeather\<close> reads it: either
  \<^verbatim>\<open>{success: false, error: {code, info, type}}\<close> (the \<open>error\<close> member may be missing), or any
  other body, of which only \<open>location\<close> (possibly missing) and its \<open>name\<close> are read.
  An absent or \<open>null\<close> member is \<open>None\<close>. \<open>code\<close> is a number, \<open>info\<close>, \<open>type\<close> and
  \<open>name\<close> are strings, as the upstream service documents them.
\<close>

record error_obj =
  code :: "int option"
  info :: "string option"
  type :: "string option"

record location_obj =
  name :: string
  region :: string
  country :: string
  localtime :: string

record payload =
  location :: "location_obj option"
  current :: string

datatype data = Failure "error_obj option" | Payload payload

text \<open>
  The promise of \<open>axios.get\<close> is fulfilled with a status and a body when the server
  answers with a 2xx status, and rejected otherwise with an error \<open>err\<close>, of which the
  code reads \<open>err.response?.status\<close>, \<open>err.code\<close> and \<open>err.message\<close>.
\<close>

datatype axios_error =
  AxiosError (err_status: "nat option") (err_code: "string option") (err_message: string)

datatype 'd axios_result = Fulfilled nat 'd | Rejected axios_error

text \<open>
  Reading a property of an absent member throws a \<open>TypeError\<close>: an error with no response
  and no code, whose message (in V8's wording) names the property.
\<close>

definition TypeError :: "string \<Rightarrow> axios_error" where
  "TypeError prop =
     AxiosError None None
       (''Cannot read properties of undefined (reading '' @ [CHR 0x27] @ prop @ [CHR 0x27] @ '')'')"

section \<open>The state of the App component\<close>

text \<open>
  \<open>fetchWeather\<close> is created by \<open>useCallback\<close> with the dependencies
  \<open>[apiKey, useHistorical, historicalDate, recentSearches]\<close>: a call reads the values of
  these four that its closure captured at the render that created it, not the current
  state. \<open>hooks\<close> is that captured part; the component state \<open>app\<close> extends it with the
  other \<open>useState\<close> cells the function writes and with the environment it acts on:
  \<open>protocol\<close> is \<open>window.location.protocol\<close>, \<open>skycast_api_key\<close> and \<open>skycast_recent\<close> the
  \<open>localStorage\<close> entries of these names, \<open>timers\<close> the pending \<open>setTimeout\<close> callbacks
  (delay in milliseconds, the closure that scheduled the callback, the argument it will
  pass), \<open>inflight\<close> the
  \<open>axios.get\<close> calls that have been issued and not yet settled (the closure awaiting
  the response, its \<open>searchCity\<close>, the request sent).
\<close>

record hooks =
  apiKey :: string
  useHistorical :: bool
  historicalDate :: string
  recentSearches :: "string list"

record app = hooks +
  weatherData :: "payload option"
  loading :: bool
  error :: "string option"
  lastUpdated :: "string option"
  protocol :: string
  skycast_api_key :: "string option"
  skycast_recent :: "string list option"
  timers :: "(nat \<times> hooks \<times> string) list"
  inflight :: "(hooks \<times> string \<times> request) list"

section \<open>fetchWeather (src/unnamed/part_000, lines 35-87)\<close>

text \<open>
  Lines 44-58: the endpoint and the request. The first \<open>App\<close> of src/src/App.jsx builds
  its request with the same code (its lines 32-49).
\<close>

definition endpoint :: "hooks \<Rightarrow> string" where
  "endpoint h = (if useHistorical h \<and> historicalDate h \<noteq> [] then ''historical'' else ''current'')"

definition historical_params :: "hooks \<Rightarrow> (string \<times> string) list" where
  "historical_params h =
     (if useHistorical h \<and> historicalDate h \<noteq> []
      then [(''historical_date'', historicalDate h), (''hourly'', ''1''), (''interval'', ''3'')]
      else [])"

definition axios_get :: "hooks \<Rightarrow> string \<Rightarrow> request" where
  "axios_get h city =
     \<lparr>url = ''http://api.weatherstack.com/'' @ endpoint h,
      params = [(''access_key'', trim (apiKey h)), (''query'', city)] @ historical_params h\<rparr>"

text \<open>
  Lines 36-58, up to the \<open>await\<close>: the guard on the raw query, \<open>setLoading(true)\<close>,
  \<open>setError(null)\<close>, the normalisation and the request, which stays in flight until the
  promise settles. For a string, \<open>!query\<close> holds exactly when it is empty.
\<close>

definition fetchWeather_dispatch :: "hooks \<Rightarrow> string \<Rightarrow> app \<Rightarrow> app" where
  "fetchWeather_dispatch h query s =
     (if query = [] then s
      else let s1 = s\<lparr>loading := True\<rparr>;
               s2 = s1\<lparr>error := None\<rparr>;
               city = searchCity query
           in s2\<lparr>inflight := inflight s2 @ [(h, city, axios_get h city)]\<rparr>)"

text \<open>
  Line 61: \<open>a || b\<close> on strings takes \<open>a\<close> unless it is absent or empty.
\<close>

definition or_else :: "string option \<Rightarrow> string \<Rightarrow> string" where
  "or_else v d = (case v of Some (c # cs) \<Rightarrow> c # cs | _ \<Rightarrow> d)"

definition errorMsg :: "error_obj \<Rightarrow> string" where
  "errorMsg e = or_else (info e) (or_else (type e) ''City not found or API error.'')"

definition PREMIUM_RECOVERY :: string where
  "PREMIUM_RECOVERY =
     ''PREMIUM_RECOVERY: Historical logs unavailable on basic tier. Syncing live feed...''"

text \<open>
  Lines 60-78, the rest of the \<open>try\<close> block, run when the promise is fulfilled. It
  returns the state reached and the exception thrown on the way, if any: the updates made
  before a throw stay. \<open>now\<close> is \<open>new Date().toLocaleTimeString()\<close>.
\<close>

definition try_block :: "hooks \<Rightarrow> string \<Rightarrow> string \<Rightarrow> data \<Rightarrow> app \<Rightarrow> app \<times> axios_error option" where
  "try_block h city now d s =
     (case d of
        Failure None \<Rightarrow> (s, Some (TypeError ''info''))
      | Failure (Some e) \<Rightarrow>
          (let errorCode = code e;
               s1 = (if errorCode = Some 601 \<or> errorCode = Some 602 \<or> errorCode = Some 603
                        \<or> errorCode = Some 604
                     then let a = s\<lparr>error := Some PREMIUM_RECOVERY\<rparr>;
                              b = a\<lparr>useHistorical := False\<rparr>
                          in b\<lparr>timers := timers b @ [(2000, h, city)]\<rparr>
                     else s\<lparr>error := Some (''STATION_RESPONSE: '' @ errorMsg e)\<rparr>)
           in (s1\<lparr>weatherData := None\<rparr>, None))
      | Payload p \<Rightarrow>
          (let s1 = s\<lparr>weatherData := Some p\<rparr>;
               s2 = s1\<lparr>lastUpdated := Some now\<rparr>
           in case location p of
                None \<Rightarrow> (s2, Some (TypeError ''name''))
              | Some l \<Rightarrow>
                  (let newRecent = take 5 (name l # filter (\<lambda>c. c \<noteq> name l) (recentSearches h));
                       s3 = s2\<lparr>recentSearches := newRecent\<rparr>
                   in (s3\<lparr>skycast_recent := Some newRecent\<rparr>, None))))"

text \<open>Lines 79-83, the \<open>catch\<close> block.\<close>

definition catch_block :: "axios_error \<Rightarrow> app \<Rightarrow> app" where
  "catch_block err s =
     (let s1 = (if err_status err = Some 401
                then s\<lparr>error := Some ''ACCESS_DENIED: Invalid authentication key.''\<rparr>
                else if err_code err = Some ''ERR_NETWORK''
                then s\<lparr>error := Some
                  ''PROTOCOL_ERROR: WeatherStack requires HTTP entry. Access denied over HTTPS.''\<rparr>
                else s\<lparr>error := Some (''INTERFACE_ERROR: '' @ err_message err)\<rparr>)
      in s1\<lparr>weatherData := None\<rparr>)"

text \<open>
  Lines 60-86: what the call does once its promise has settled, with the \<open>finally\<close>
  block last.
\<close>

definition fetchWeather_settle :: "hooks \<Rightarrow> string \<Rightarrow> string \<Rightarrow> data axios_result \<Rightarrow> app \<Rightarrow> app" where
  "fetchWeather_settle h city now r s =
     (let s1 = (case r of
                  Rejected err \<Rightarrow> catch_block err s
                | Fulfilled st d \<Rightarrow>
                    (case try_block h city now d s of
                       (s', None) \<Rightarrow> s'
                     | (s', Some err) \<Rightarrow> catch_block err s'))
      in s1\<lparr>loading := False\<rparr>)"

section \<open>The component as a state machine\<close>

text \<open>
  JavaScript runs one task at a time, and an \<open>async\<close> function gives up control at its
  \<open>await\<close>: other handlers may run between the dispatch of a request and the moment its
  promise settles. The events are: a caller (the search box, a recent-search button, the
  refresh button) invokes the \<open>fetchWeather\<close> of the current render, whose closure holds
  the current values of the four dependencies; the promise of the \<open>i\<close>-th request in flight
  settles; the \<open>i\<close>-th pending timer fires and calls \<open>fetchWeather(searchCity)\<close>; and the
  handlers of lines 160, 201 and 251 (\<open>setUseHistorical(!useHistorical)\<close>,
  \<open>setHistoricalDate\<close>, \<open>setApiKey\<close>).

  In the timer's callback the name \<open>fetchWeather\<close> is the \<open>const\<close> of the render whose
  function body contains the callback. \<open>useCallback\<close> hands out a function only at the
  render that created it (later renders with equal dependencies reuse it), so that
  \<open>const\<close> is the very closure that set the timer: the retry runs with the dependencies
  captured by the originating call, whatever the state has become since.
\<close>

datatype event =
    Call string
  | Settle nat string "data axios_result"
  | Fire nat
  | ToggleHistorical
  | SetHistoricalDate string
  | SaveApiKey string

definition remove_nth :: "nat \<Rightarrow> 'a list \<Rightarrow> 'a list" where
  "remove_nth i xs = take i xs @ drop (Suc i) xs"

fun step :: "event \<Rightarrow> app \<Rightarrow> app" where
  "step (Call query) s = fetchWeather_dispatch (hooks.truncate s) query s"
| "step (Settle i now r) s =
     (if i < length (inflight s)
      then case inflight s ! i of
             (h, city, req) \<Rightarrow>
               fetchWeather_settle h city now r (s\<lparr>inflight := remove_nth i (inflight s)\<rparr>)
      else s)"
| "step (Fire i) s =
     (if i < length (timers s)
      then case timers s ! i of
             (delay, h, city) \<Rightarrow>
               fetchWeather_dispatch h city (s\<lparr>timers := remove_nth i (timers s)\<rparr>)
      else s)"
| "step ToggleHistorical s = s\<lparr>useHistorical := \<not> useHistorical s\<rparr>"
| "step (SetHistoricalDate d) s = s\<lparr>historicalDate := d\<rparr>"
| "step (SaveApiKey k) s = (s\<lparr>apiKey := k\<rparr>)\<lparr>skycast_api_key := Some k\<rparr>"

fun run :: "event list \<Rightarrow> app \<Rightarrow> app" where
  "run [] s = s"
| "run (e # es) s = run es (step e s)"

text \<open>
  Lines 11-24, the state of the first render: \<open>apiKey\<close> is the stored key or, when none
  (or an empty one) is stored, the built-in one; \<open>recentSearches\<close> is the stored list or
  the empty list.
\<close>

definition DEFAULT_API_KEY :: string where
  "DEFAULT_API_KEY = ''34492e3cb3c0a2e5f567c98c1f89551f''"

definition initial_app :: "string \<Rightarrow> string option \<Rightarrow> string list option \<Rightarrow> app" where
  "initial_app proto stored_key stored_recent =
     \<lparr>apiKey = or_else stored_key DEFAULT_API_KEY,
      useHistorical = False,
      historicalDate = [],
      recentSearches = (case stored_recent of None \<Rightarrow> [] | Some xs \<Rightarrow> xs),
      weatherData = None,
      loading = False,
      error = None,
      lastUpdated = None,
      protocol = proto,
      skycast_api_key = stored_key,
      skycast_recent = stored_recent,
      timers = [],
      inflight = []\<rparr>"

text \<open>
  The vocabulary of the specification, read off the branches of \<open>fetchWeather\<close>. A
  response is terminal when it ends in an error message other than the recovery notice:
  a rejected promise, an explicit failure whose code is none of 601-604, and a body that
  cannot be read (no \<open>error\<close> in a failure, no \<open>location\<close> otherwise). The Recency Cache is
  well formed when it has at most 5 entries and no name twice; \<open>cache_inv\<close> asks the same
  absence of duplicates of the lists captured by the closures that are still to run.
\<close>

fun terminal :: "data axios_result \<Rightarrow> bool" where
  "terminal (Rejected err) = True"
| "terminal (Fulfilled st (Failure None)) = True"
| "terminal (Fulfilled st (Failure (Some e))) = (code e \<notin> {Some 601, Some 602, Some 603, Some 604})"
| "terminal (Fulfilled st (Payload p)) = (location p = None)"



section \<open>fetchWeather with the relay (src/src/App.jsx, second App, lines 497-531)\<close>

text \<open>
  The second \<open>App\<close> of src/src/App.jsx differs from part_000 in the request: under
  \<open>window.location.protocol === 'https:'\<close> the URL is the same-origin \<open>/api/weather\<close> and
  the endpoint travels as a parameter.
\<close>

definition axios_get_relay :: "string \<Rightarrow> hooks \<Rightarrow> string \<Rightarrow> request" where
  "axios_get_relay proto h city =
     \<lparr>url = (if proto = ''https:'' then ''/api/weather''
             else ''http://api.weatherstack.com/'' @ endpoint h),
      params = [(''access_key'', trim (apiKey h)), (''query'', city)]
               @ (if proto = ''https:'' then [(''endpoint'', endpoint h)] else [])
               @ historical_params h\<rparr>"

definition fetchWeather_dispatch_relay :: "hooks \<Rightarrow> string \<Rightarrow> app \<Rightarrow> app" where
  "fetchWeather_dispatch_relay h query s =
     (if query = [] then s
      else let s1 = s\<lparr>loading := True\<rparr>;
               s2 = s1\<lparr>error := None\<rparr>;
               city = searchCity query
           in s2\<lparr>inflight := inflight s2 @ [(h, city, axios_get_relay (protocol s2) h city)]\<rparr>)"

text \<open>
  The route of a request, in the words of the specification: RELAYED targets the
  same-origin relay, DIRECT the upstream service's own HTTP endpoint.
\<close>

datatype TransportRoute = DIRECT | RELAYED

definition route :: "request \<Rightarrow> TransportRoute option" where
  "route req =
     (if url req = ''/api/weather'' then Some RELAYED
      else if take 28 (url req) = ''http://api.weatherstack.com/'' then Some DIRECT
      else None)"

section \<open>The relay (src/api/weather.js)\<close>

text \<open>
  \<open>req.query\<close> is the list of the query parameters, each key once. The handler answers
  with a status, the headers it set and a JSON body: the upstream body as it came, or
  the relay's own \<^verbatim>\<open>{success: false, error: {info}}\<close>. The upstream service is a function
  from the request to the way the promise of \<open>axios.get\<close> settles; the handler returns its
  answer and the upstream calls it made.
\<close>

datatype 'd relay_json = Upstream 'd | ErrorInfo string

record 'd res =
  status :: nat
  headers :: "(string \<times> string) list"
  json :: "'d relay_json"

definition weather_handler ::
  "(string \<times> string) list \<Rightarrow> (request \<Rightarrow> 'd axios_result) \<Rightarrow> 'd res \<times> request list" where
  "weather_handler q upstream =
     (let ep = (case map_of q ''endpoint'' of None \<Rightarrow> ''current'' | Some e \<Rightarrow> e);
          rest = filter (\<lambda>(k, v). k \<noteq> ''endpoint'' \<and> k \<noteq> ''access_key'' \<and> k \<noteq> ''query'') q
      in case (map_of q ''access_key'', map_of q ''query'') of
           (Some (a # as), Some (b # bs)) \<Rightarrow>
             (let req = \<lparr>url = ''http://api.weatherstack.com/'' @ ep,
                         params = [(''access_key'', a # as), (''query'', b # bs)] @ rest\<rparr>
              in case upstream req of
                   Fulfilled st d \<Rightarrow>
                     (\<lparr>status = 200,
                       headers = [(''Access-Control-Allow-Origin'', ''*''),
                                  (''Access-Control-Allow-Methods'', ''GET, OPTIONS'')],
                       json = Upstream d\<rparr>, [req])
                 | Rejected err \<Rightarrow>
                     (\<lparr>status = 500, headers = [],
                       json = ErrorInfo (''Proxy Error: '' @ err_message err)\<rparr>, [req]))
         | _ \<Rightarrow>
             (\<lparr>status = 400, headers = [],
               json = ErrorInfo ''Missing access_key or query parameters.''\<rparr>, []))"

section \<open>Sample data\<close>

text \<open>
  Values for the worked examples: a success body for a place of a given name, an
  explicit failure with a given code and neither \<open>info\<close> nor \<open>type\<close>, the rejection
  \<open>axios\<close> raises when the server answers 401, an upstream that always answers so, and a
  run in which a second search is started before the first one has been answered.
\<close>

definition sample_report :: "string \<Rightarrow> payload" where
  "sample_report n =
     \<lparr>location = Some \<lparr>name = n, region = [], country = [], localtime = []\<rparr>, current = []\<rparr>"

definition api_failure :: "int \<Rightarrow> data axios_result" where
  "api_failure c = Fulfilled 200 (Failure (Some \<lparr>code = Some c, info = None, type = None\<rparr>))"

definition rejected_401 :: axios_error where
  "rejected_401 =
     AxiosError (Some 401) (Some ''ERR_BAD_REQUEST'') ''Request failed with status code 401''"

definition upstream_401 :: "request \<Rightarrow> data axios_result" where
  "upstream_401 req = Rejected rejected_401"

definition overlapping_calls :: "event list" where
  "overlapping_calls =
     [Call ''zzzz'', Call ''London'',
      Settle 0 ''12:00:00'' (api_failure 615),
      Settle 0 ''12:00:01'' (Fulfilled 200 (Payload (sample_report ''London'')))]"

section \<open>Properties of the query normalisation\<close>

lemmas eval_defs = searchCity_def trim_def toLowerCase_def lower_char_def isWhiteSpace_def
  upper_letters_def lower_letters_def

















section \<open>Effects of one call\<close>

lemmas settle_defs = fetchWeather_settle_def try_block_def catch_block_def

lemma catch_block_effect:
  "\<exists>m. error (catch_block err s) = Some m \<and> m \<noteq> PREMIUM_RECOVERY"
  "weatherData (catch_block err s) = None"
  "timers (catch_block err s) = timers s"
  "inflight (catch_block err s) = inflight s"
  "recentSearches (catch_block err s) = recentSearches s"
  "skycast_recent (catch_block err s) = skycast_recent s"
  "error (catch_block err s) \<noteq> None"
  "error (catch_block err s) \<noteq> Some PREMIUM_RECOVERY"
  by (simp_all add: catch_block_def Let_def PREMIUM_RECOVERY_def)

lemma inflight_dispatch:
  "query \<noteq> [] \<Longrightarrow> inflight (fetchWeather_dispatch h query s)
     = inflight s @ [(h, searchCity query, axios_get h (searchCity query))]"
  by (simp add: fetchWeather_dispatch_def Let_def)

lemma dispatch_empty: "fetchWeather_dispatch h [] s = s"
  by (simp add: fetchWeather_dispatch_def)

lemma dispatch_clears_error:
  "query \<noteq> [] \<Longrightarrow> error (fetchWeather_dispatch h query s) = None"
  by (simp add: fetchWeather_dispatch_def Let_def)





lemma settle_failure:
  assumes "\<not> (\<exists>st p l. r = Fulfilled st (Payload p) \<and> location p = Some l)"
  shows "error (fetchWeather_settle h city now r s) \<noteq> None
         \<and> weatherData (fetchWeather_settle h city now r s) = None"
proof (cases r)
  case (Rejected err)
  then show ?thesis
    by (simp add: fetchWeather_settle_def catch_block_effect)
next
  case (Fulfilled st d)
  show ?thesis
  proof (cases d)
    case (Failure eo)
    then show ?thesis using Fulfilled
      by (cases eo) (simp_all add: fetchWeather_settle_def try_block_def Let_def catch_block_effect)
  next
    case (Payload p)
    with Fulfilled assms have "location p = None" by (cases "location p") auto
    then show ?thesis using Fulfilled Payload
      by (simp add: fetchWeather_settle_def try_block_def Let_def catch_block_effect)
  qed
qed

lemma settle_success:
  assumes "location p = Some l"
  shows "weatherData (fetchWeather_settle h city now (Fulfilled st (Payload p)) s) = Some p
         \<and> error (fetchWeather_settle h city now (Fulfilled st (Payload p)) s) = error s"
  using assms by (simp add: fetchWeather_settle_def try_block_def Let_def)

section \<open>The guard on the query\<close>

text \<open>
  C6 says that a raw query whose trimmed form is empty never reaches the network. The
  guard of line 36 tests the raw string, before line 40 trims it: the empty string is
  stopped (\<open>dispatch_empty\<close>), a string of three spaces is not. The call goes on and
  puts a request in flight whose \<open>query\<close> parameter is the empty string.
\<close>

theorem blank_query_is_dispatched:
  "inflight (fetchWeather_dispatch h ''   '' s) =
     inflight s @ [(h, [], \<lparr>url = ''http://api.weatherstack.com/'' @ endpoint h,
                             params = [(''access_key'', trim (apiKey h)), (''query'', [])]
                                      @ historical_params h\<rparr>)]"
  by (simp add: fetchWeather_dispatch_def axios_get_def eval_defs)

section \<open>Classification of explicit failures\<close>

text \<open>
  C3: a body with \<open>success: false\<close> is answered with the recovery notice exactly when it
  has an \<open>error\<close> object whose code is one of 601, 602, 603, 604, and then a retry is
  scheduled; every other explicit failure ends in an error message other than the
  notice, with no retry. For a body with an \<open>error\<close> object that message is
  \<open>STATION_RESPONSE:\<close> followed by the body's \<open>info\<close>, or else its \<open>type\<close>, or else the
  fallback text when both are absent (or empty). Either way the report is cleared and
  the Recency Cache keeps its value.
\<close>

theorem failure_body_classification:
  "let s' = fetchWeather_settle h city now (Fulfilled st (Failure eo)) s in
     (error s' = Some PREMIUM_RECOVERY \<longleftrightarrow>
        (\<exists>e. eo = Some e \<and> code e \<in> {Some 601, Some 602, Some 603, Some 604}))
   \<and> (\<forall>e. eo = Some e \<and> code e \<in> {Some 601, Some 602, Some 603, Some 604} \<longrightarrow>
        timers s' = timers s @ [(2000, h, city)] \<and> useHistorical s' = False)
   \<and> ((\<forall>e. eo = Some e \<longrightarrow> code e \<notin> {Some 601, Some 602, Some 603, Some 604}) \<longrightarrow>
        timers s' = timers s \<and> (\<exists>m. error s' = Some m \<and> m \<noteq> PREMIUM_RECOVERY))
   \<and> (\<forall>e. eo = Some e \<and> code e \<notin> {Some 601, Some 602, Some 603, Some 604} \<longrightarrow>
        error s' = Some (''STATION_RESPONSE: '' @
             (case info e of Some (c # cs) \<Rightarrow> c # cs
              | _ \<Rightarrow> (case type e of Some (c # cs) \<Rightarrow> c # cs
                       | _ \<Rightarrow> ''City not found or API error.''))))
   \<and> weatherData s' = None \<and> recentSearches s' = recentSearches s"
proof (cases eo)
  case None
  then show ?thesis using catch_block_effect(1) [of "TypeError ''info''" s]
    by (simp add: fetchWeather_settle_def try_block_def Let_def catch_block_effect)
next
  case (Some e)
  then show ?thesis
    by (simp add: settle_defs Let_def errorMsg_def or_else_def PREMIUM_RECOVERY_def)
qed

text \<open>
  Witness for C3: code 603 from the first state (recoverable) and code 615 with only a
  \<open>type\<close> (terminal).
\<close>

theorem failure_body_classification_witness:
  "(let s = initial_app ''http:'' None None;
        s' = fetchWeather_settle (hooks.truncate s) ''london'' ''12:00:00''
               (Fulfilled 200 (Failure (Some \<lparr>code = Some 603, info = Some ''Your current subscription plan does not support historical weather data.'', type = Some ''historical_queries_not_supported_on_plan''\<rparr>))) s
    in Some (603::int) \<in> {Some 601, Some 602, Some 603, Some 604}
       \<and> error s' = Some PREMIUM_RECOVERY
       \<and> timers s' = [(2000, hooks.truncate s, ''london'')]
       \<and> weatherData s' = None)
   \<and> (let s = initial_app ''http:'' None None;
          s' = fetchWeather_settle (hooks.truncate s) ''london'' ''12:00:00''
               (Fulfilled 200 (Failure (Some \<lparr>code = Some 615, info = None, type = Some ''request_failed''\<rparr>))) s
      in Some (615::int) \<notin> {Some 601, Some 602, Some 603, Some 604}
         \<and> error s' = Some ''STATION_RESPONSE: request_failed''
         \<and> timers s' = []
         \<and> weatherData s' = None)"
  using failure_body_classification [where h = "hooks.truncate (initial_app ''http:'' None None)"
      and city = "''london''" and now = "''12:00:00''" and st = 200
      and s = "initial_app ''http:'' None None"
      and eo = "Some \<lparr>code = Some 603, info = Some ''Your current subscription plan does not support historical weather data.'', type = Some ''historical_queries_not_supported_on_plan''\<rparr>"]
    failure_body_classification [where h = "hooks.truncate (initial_app ''http:'' None None)"
      and city = "''london''" and now = "''12:00:00''" and st = 200
      and s = "initial_app ''http:'' None None"
      and eo = "Some \<lparr>code = Some 615, info = None, type = Some ''request_failed''\<rparr>"]
  by (simp add: Let_def initial_app_def PREMIUM_RECOVERY_def)

section \<open>Terminal outcomes\<close>

text \<open>
  C7: when a call settles with a terminal outcome (a rejected promise such as HTTP 401,
  an explicit failure outside 601-604, an unreadable body), an error message other than
  the recovery notice is shown, no timer is added, the Recency Cache and its stored copy
  are untouched, and the held report is cleared. A 401 gives the \<open>ACCESS_DENIED\<close> text.
\<close>

theorem terminal_outcome_effects:
  assumes "terminal r" and "s' = fetchWeather_settle h city now r s"
  shows "(\<exists>m. error s' = Some m \<and> m \<noteq> PREMIUM_RECOVERY)
         \<and> timers s' = timers s
         \<and> recentSearches s' = recentSearches s
         \<and> skycast_recent s' = skycast_recent s
         \<and> weatherData s' = None
         \<and> (\<forall>err. r = Rejected err \<and> err_status err = Some 401 \<longrightarrow>
               error s' = Some ''ACCESS_DENIED: Invalid authentication key.'')"
proof (cases r)
  case (Rejected err)
  then show ?thesis using assms(2) catch_block_effect [of err s]
    by (auto simp: fetchWeather_settle_def catch_block_def)
next
  case (Fulfilled st d)
  show ?thesis
  proof (cases d)
    case (Failure eo)
    show ?thesis
    proof (cases eo)
      case None
      then show ?thesis using Fulfilled Failure assms(2) catch_block_effect [of "TypeError ''info''" s]
        by (simp add: fetchWeather_settle_def try_block_def)
    next
      case (Some e)
      then show ?thesis using Fulfilled Failure assms
        by (simp add: settle_defs Let_def PREMIUM_RECOVERY_def)
    qed
  next
    case (Payload p)
    with Fulfilled assms(1) have "location p = None" by simp
    then show ?thesis using Fulfilled Payload assms(2)
        catch_block_effect [of "TypeError ''name''" "s\<lparr>weatherData := Some p, lastUpdated := Some now\<rparr>"]
      by (simp add: fetchWeather_settle_def try_block_def Let_def)
  qed
qed

text \<open>
  Witness for C7: a 401 while a report for London is held and London is in the cache.
\<close>

theorem terminal_outcome_effects_witness:
  "terminal (Rejected (AxiosError (Some 401) (Some ''ERR_BAD_REQUEST'') ''Request failed with status code 401''))
   \<and> (let s = run [Call ''London'', Settle 0 ''12:00:00'' (Fulfilled 200 (Payload (sample_report ''London'')))]
                  (initial_app ''http:'' None None);
          s' = fetchWeather_settle (hooks.truncate s) ''paris'' ''12:05:00''
                 (Rejected (AxiosError (Some 401) (Some ''ERR_BAD_REQUEST'') ''Request failed with status code 401'')) s
      in weatherData s = Some (sample_report ''London'')
         \<and> recentSearches s = [''London'']
         \<and> error s' = Some ''ACCESS_DENIED: Invalid authentication key.''
         \<and> timers s' = timers s
         \<and> recentSearches s' = [''London'']
         \<and> weatherData s' = None)"
proof -
  let ?r = "Rejected (AxiosError (Some 401) (Some ''ERR_BAD_REQUEST'') ''Request failed with status code 401'')"
  let ?s = "run [Call ''London'', Settle 0 ''12:00:00'' (Fulfilled 200 (Payload (sample_report ''London'')))]
                  (initial_app ''http:'' None None)"
  have t: "terminal ?r" by simp
  have s: "weatherData ?s = Some (sample_report ''London'') \<and> recentSearches ?s = [''London'']"
    by code_simp
  from terminal_outcome_effects [OF t refl, of "hooks.truncate ?s" "''paris''" "''12:05:00''" ?s]
  show ?thesis using t s unfolding Let_def by simp
qed

text \<open>
  The terminal responses are exactly those that add no timer and leave no report.
\<close>

lemma terminal_iff_no_retry_no_report:
  "terminal r \<longleftrightarrow>
     timers (fetchWeather_settle h city now r s) = timers s
     \<and> weatherData (fetchWeather_settle h city now r s) = None"
proof (cases r)
  case (Rejected err)
  then show ?thesis by (simp add: fetchWeather_settle_def catch_block_effect)
next
  case (Fulfilled st d)
  then show ?thesis
    by (cases d) (auto simp: settle_defs Let_def split: option.splits)
qed

section \<open>The automatic retry\<close>

text \<open>
  C2 says that a recoverable error is followed by one retry in LIVE mode, whose own
  outcome is final. The timer calls the \<open>fetchWeather\<close> of the closure that set it, which
  still holds \<open>useHistorical = true\<close>: \<open>setUseHistorical(false)\<close> changes the state but
  not the captured value. With historical mode on and code 603 answered, the state is
  LIVE and one timer of 2000 ms is pending for \<open>london\<close>; when it fires the request goes
  to the historical endpoint again, and a second 603 schedules a second retry. The
  second part needs no captured value: in LIVE mode a search answered twice with 602
  leaves a retry pending after the first retry has settled.
\<close>

theorem retry_repeats_historical_request:
  "(let s3 = run [ToggleHistorical, SetHistoricalDate ''2024-01-01'', Call ''London'',
                  Settle 0 ''12:00:00'' (api_failure 603)] (initial_app ''http:'' None None);
        s4 = step (Fire 0) s3;
        s5 = step (Settle 0 ''12:00:03'' (api_failure 603)) s4
    in useHistorical s3 = False
       \<and> map fst (timers s3) = [2000]
       \<and> map (\<lambda>(d, h, city). (useHistorical h, city)) (timers s3) = [(True, ''london'')]
       \<and> timers s4 = []
       \<and> map (\<lambda>(h, city, req). url req) (inflight s4) = [''http://api.weatherstack.com/historical'']
       \<and> map (\<lambda>(d, h, city). (useHistorical h, city)) (timers s5) = [(True, ''london'')])
   \<and> (let s = run [Call ''Atlantis'', Settle 0 ''12:00:00'' (api_failure 602), Fire 0,
                   Settle 0 ''12:00:03'' (api_failure 602)] (initial_app ''http:'' None None)
      in map (\<lambda>(d, h, city). (d, city)) (timers s) = [(2000, ''atlantis'')])"
  by code_simp

section \<open>Report and error\<close>

text \<open>
  Counterexample for C9: two searches are started one after the other; the first is
  answered with a failure, then the second with a report. Only the dispatch clears the
  error, so the report is stored beside the first call's error message.
\<close>

theorem overlapping_calls_leave_report_and_error:
  "inflight (run overlapping_calls (initial_app ''http:'' None None)) = []
   \<and> weatherData (run overlapping_calls (initial_app ''http:'' None None))
       = Some (sample_report ''London'')
   \<and> error (run overlapping_calls (initial_app ''http:'' None None))
       = Some ''STATION_RESPONSE: City not found or API error.''"
  by code_simp

text \<open>
  C9, amended: a call that passes the guard clears the error before it dispatches; a
  success stores the report and leaves the error as it finds it; every other settlement
  sets an error and clears the report; so after any settlement at least one of the two
  is set, and after a call that settles before any other handler has run exactly one of
  them is.
\<close>

theorem report_xor_error_sequential:
  "(query \<noteq> [] \<longrightarrow> error (fetchWeather_dispatch h query s) = None)
   \<and> (location p = Some l \<longrightarrow>
        weatherData (fetchWeather_settle h city now (Fulfilled st (Payload p)) s) = Some p
        \<and> error (fetchWeather_settle h city now (Fulfilled st (Payload p)) s) = error s)
   \<and> (\<not> (\<exists>st p l. r = Fulfilled st (Payload p) \<and> location p = Some l) \<longrightarrow>
        error (fetchWeather_settle h city now r s) \<noteq> None
        \<and> weatherData (fetchWeather_settle h city now r s) = None)
   \<and> (weatherData (fetchWeather_settle h city now r s) \<noteq> None
        \<or> error (fetchWeather_settle h city now r s) \<noteq> None)
   \<and> (query \<noteq> [] \<longrightarrow>
        (let s' = step (Settle (length (inflight s)) now r) (step (Call query) s)
         in (weatherData s' = None) \<noteq> (error s' = None)))"
proof -
  have c1: "query \<noteq> [] \<longrightarrow> error (fetchWeather_dispatch h query s) = None"
    by (simp add: dispatch_clears_error)
  have c2: "location p = Some l \<longrightarrow>
        weatherData (fetchWeather_settle h city now (Fulfilled st (Payload p)) s) = Some p
        \<and> error (fetchWeather_settle h city now (Fulfilled st (Payload p)) s) = error s"
    using settle_success [of p l h city now st s] by (rule impI)
  have c3: "\<not> (\<exists>st p l. r = Fulfilled st (Payload p) \<and> location p = Some l) \<longrightarrow>
        error (fetchWeather_settle h city now r s) \<noteq> None
        \<and> weatherData (fetchWeather_settle h city now r s) = None"
    using settle_failure [of r h city now s] by (rule impI)
  have c4: "weatherData (fetchWeather_settle h city now r s) \<noteq> None
        \<or> error (fetchWeather_settle h city now r s) \<noteq> None"
  proof (cases "\<exists>st p l. r = Fulfilled st (Payload p) \<and> location p = Some l")
    case True
    then obtain st p l where "r = Fulfilled st (Payload p)" "location p = Some l" by blast
    then show ?thesis using settle_success [of p l h city now st s] by simp
  next
    case False
    then show ?thesis using settle_failure [of r h city now s] by simp
  qed
  have c5: "query \<noteq> [] \<longrightarrow>
        (let s' = step (Settle (length (inflight s)) now r) (step (Call query) s)
         in (weatherData s' = None) \<noteq> (error s' = None))"
  proof
    assume q: "query \<noteq> []"
    let ?h = "hooks.truncate s"
    let ?d = "fetchWeather_dispatch ?h query s"
    let ?m = "?d\<lparr>inflight := remove_nth (length (inflight s)) (inflight ?d)\<rparr>"
    let ?s' = "fetchWeather_settle ?h (searchCity query) now r ?m"
    have i: "inflight ?d = inflight s @ [(?h, searchCity query, axios_get ?h (searchCity query))]"
      using q by (rule inflight_dispatch)
    have e: "error ?m = None" using dispatch_clears_error [OF q, of ?h s] by simp
    have s'': "step (Settle (length (inflight s)) now r) (step (Call query) s) = ?s'"
      by (simp add: i)
    have "(weatherData ?s' = None) \<noteq> (error ?s' = None)"
    proof (cases "\<exists>st p l. r = Fulfilled st (Payload p) \<and> location p = Some l")
      case True
      then obtain st p l where "r = Fulfilled st (Payload p)" "location p = Some l" by blast
      then show ?thesis using settle_success [of p l ?h "searchCity query" now st ?m] e by simp
    next
      case False
      then show ?thesis using settle_failure [of r ?h "searchCity query" now ?m] by simp
    qed
    then show "let s' = step (Settle (length (inflight s)) now r) (step (Call query) s)
         in (weatherData s' = None) \<noteq> (error s' = None)"
      unfolding s'' Let_def .
  qed
  show ?thesis
    by (rule conjI [OF c1 conjI [OF c2 conjI [OF c3 conjI [OF c4 c5]]]])
qed

text \<open>
  Witness for C9: a search for London from the first state, answered with a report and
  answered with a failure.
\<close>

theorem report_xor_error_sequential_witness:
  "(let s = initial_app ''http:'' None None;
        s1 = step (Call ''London'') s;
        ok = step (Settle 0 ''12:00:00'' (Fulfilled 200 (Payload (sample_report ''London'')))) s1;
        ko = step (Settle 0 ''12:00:00'' (api_failure 615)) s1
    in ''London'' \<noteq> [] \<and> length (inflight s) = 0
       \<and> location (sample_report ''London'') \<noteq> None
       \<and> error s1 = None
       \<and> weatherData ok = Some (sample_report ''London'') \<and> error ok = None
       \<and> weatherData ko = None \<and> error ko \<noteq> None
       \<and> ((weatherData ok = None) \<noteq> (error ok = None))
       \<and> ((weatherData ko = None) \<noteq> (error ko = None)))"
proof -
  let ?s = "initial_app ''http:'' None None"
  let ?l = "\<lparr>name = ''London'', region = [], country = [], localtime = []\<rparr>"
  have q: "''London'' \<noteq> []" by simp
  have l: "location (sample_report ''London'') = Some ?l" by (simp add: sample_report_def)
  have f: "\<not> (\<exists>st p l. api_failure 615 = Fulfilled st (Payload p) \<and> location p = Some l)"
    by (simp add: api_failure_def)
  have n: "length (inflight ?s) = 0" by (simp add: initial_app_def)
  note a = report_xor_error_sequential [where query = "''London''" and s = ?s
      and h = "hooks.truncate ?s" and p = "sample_report ''London''" and l = ?l
      and r = "Fulfilled 200 (Payload (sample_report ''London''))" and now = "''12:00:00''"
      and st = 200 and city = "''london''"]
  note b = report_xor_error_sequential [where query = "''London''" and s = ?s
      and h = "hooks.truncate ?s" and p = "sample_report ''London''" and l = ?l
      and r = "api_failure 615" and now = "''12:00:00''"
      and st = 200 and city = "''london''"]
  have e: "(let s = initial_app ''http:'' None None;
        s1 = step (Call ''London'') s;
        ok = step (Settle 0 ''12:00:00'' (Fulfilled 200 (Payload (sample_report ''London'')))) s1;
        ko = step (Settle 0 ''12:00:00'' (api_failure 615)) s1
    in error s1 = None
       \<and> weatherData ok = Some (sample_report ''London'') \<and> error ok = None
       \<and> weatherData ko = None \<and> error ko \<noteq> None)"
    by code_simp
  from a b show ?thesis using q l f n e unfolding Let_def by simp
qed

section \<open>The Recency Cache\<close>











section \<open>The transport route\<close>

text \<open>
  Counterexample for C1: \<open>fetchWeather\<close> of part_000 never reads the scheme. On a page
  served over https its request goes to the upstream HTTP endpoint directly.
\<close>

theorem secure_host_direct_request:
  "protocol (initial_app ''https:'' None None) = ''https:''
   \<and> inflight (step (Call ''London'') (initial_app ''https:'' None None))
       = [(\<lparr>apiKey = DEFAULT_API_KEY, useHistorical = False, historicalDate = [],
            recentSearches = []\<rparr>,
           ''london'',
           \<lparr>url = ''http://api.weatherstack.com/current'',
            params = [(''access_key'', DEFAULT_API_KEY), (''query'', ''london'')]\<rparr>)]
   \<and> route \<lparr>url = ''http://api.weatherstack.com/current'',
              params = [(''access_key'', DEFAULT_API_KEY), (''query'', ''london'')]\<rparr>
       = Some DIRECT"
  by code_simp

text \<open>
  C1, amended: in the relay-aware \<open>fetchWeather\<close> (second \<open>App\<close> of src/src/App.jsx) the
  route depends on the scheme alone: under \<open>https:\<close> the request targets the same-origin
  relay and carries the endpoint as a parameter, under any other scheme it targets the
  upstream endpoint directly, whatever the mode. The request of part_000 (and of the
  first \<open>App\<close> of src/src/App.jsx) is always direct.
\<close>

theorem transport_route_by_variant:
  "route (axios_get_relay proto h city) = Some (if proto = ''https:'' then RELAYED else DIRECT)
   \<and> (proto = ''https:'' \<longrightarrow>
        url (axios_get_relay proto h city) = ''/api/weather''
        \<and> map_of (params (axios_get_relay proto h city)) ''endpoint'' = Some (endpoint h))
   \<and> (proto \<noteq> ''https:'' \<longrightarrow>
        url (axios_get_relay proto h city) = ''http://api.weatherstack.com/'' @ endpoint h
        \<and> map_of (params (axios_get_relay proto h city)) ''endpoint'' = None)
   \<and> (query \<noteq> [] \<longrightarrow>
        inflight (fetchWeather_dispatch_relay h query s)
          = inflight s @ [(h, searchCity query, axios_get_relay (protocol s) h (searchCity query))])
   \<and> route (axios_get h city) = Some DIRECT
   \<and> url (axios_get h city) = ''http://api.weatherstack.com/'' @ endpoint h"
  by (simp add: route_def axios_get_relay_def axios_get_def endpoint_def historical_params_def
      fetchWeather_dispatch_relay_def Let_def)

text \<open>
  Witness for C1: the first state's closure under \<open>https:\<close> and under \<open>http:\<close>.
\<close>

theorem transport_route_by_variant_witness:
  "(let h = hooks.truncate (initial_app ''https:'' None None)
    in ''https:'' = ''https:''
       \<and> url (axios_get_relay ''https:'' h ''london'') = ''/api/weather''
       \<and> map_of (params (axios_get_relay ''https:'' h ''london'')) ''endpoint'' = Some (endpoint h)
       \<and> axios_get_relay ''https:'' h ''london''
            = \<lparr>url = ''/api/weather'',
               params = [(''access_key'', DEFAULT_API_KEY), (''query'', ''london''),
                         (''endpoint'', ''current'')]\<rparr>
       \<and> route (axios_get_relay ''https:'' h ''london'') = Some RELAYED
       \<and> ''http:'' \<noteq> ''https:''
       \<and> url (axios_get_relay ''http:'' h ''london'') = ''http://api.weatherstack.com/'' @ endpoint h
       \<and> url (axios_get_relay ''http:'' h ''london'') = ''http://api.weatherstack.com/current''
       \<and> route (axios_get_relay ''http:'' h ''london'') = Some DIRECT
       \<and> ''London'' \<noteq> []
       \<and> map (\<lambda>(h, city, req). route req)
             (inflight (fetchWeather_dispatch_relay h ''London'' (initial_app ''https:'' None None)))
           = [Some RELAYED])"
proof -
  let ?s = "initial_app ''https:'' None None"
  let ?h = "hooks.truncate ?s"
  have p: "''https:'' = ''https:''" "''http:'' \<noteq> ''https:''" "''London'' \<noteq> []" by simp_all
  have a: "url (axios_get_relay ''https:'' ?h ''london'') = ''/api/weather''
           \<and> map_of (params (axios_get_relay ''https:'' ?h ''london'')) ''endpoint'' = Some (endpoint ?h)"
    using p(1) transport_route_by_variant [where proto = "''https:''" and h = ?h
        and city = "''london''" and query = "''London''" and s = ?s]
    by blast
  have b: "url (axios_get_relay ''http:'' ?h ''london'') = ''http://api.weatherstack.com/'' @ endpoint ?h"
    using p(2) transport_route_by_variant [where proto = "''http:''" and h = ?h
        and city = "''london''" and query = "''London''" and s = ?s]
    by blast
  have e: "(let h = hooks.truncate (initial_app ''https:'' None None)
    in axios_get_relay ''https:'' h ''london''
            = \<lparr>url = ''/api/weather'',
               params = [(''access_key'', DEFAULT_API_KEY), (''query'', ''london''),
                         (''endpoint'', ''current'')]\<rparr>
       \<and> route (axios_get_relay ''https:'' h ''london'') = Some RELAYED
       \<and> url (axios_get_relay ''http:'' h ''london'') = ''http://api.weatherstack.com/current''
       \<and> route (axios_get_relay ''http:'' h ''london'') = Some DIRECT
       \<and> map (\<lambda>(h, city, req). route req)
             (inflight (fetchWeather_dispatch_relay h ''London'' (initial_app ''https:'' None None)))
           = [Some RELAYED])"
    by code_simp
  from p a b e show ?thesis unfolding Let_def by blast
qed

section \<open>The relay\<close>

text \<open>
  Counterexample for C4: the upstream answers 401, so the promise of \<open>axios.get\<close> is
  rejected. The relay answers 500 with a body of its own and no cross-origin header:
  neither the upstream status nor its body is passed on.
\<close>

theorem relay_turns_upstream_401_into_500:
  "weather_handler [(''access_key'', ''k''), (''query'', ''london''), (''endpoint'', ''current'')]
     upstream_401
   = (\<lparr>status = 500, headers = [],
       json = ErrorInfo ''Proxy Error: Request failed with status code 401''\<rparr>,
      [\<lparr>url = ''http://api.weatherstack.com/current'',
        params = [(''access_key'', ''k''), (''query'', ''london'')]\<rparr>])"
  by (simp add: weather_handler_def upstream_401_def rejected_401_def)

text \<open>
  C4, amended: without a credential or a query (absent or empty) the relay answers 400
  and calls nothing. Otherwise it makes one call, to the upstream endpoint named by the
  request, with the credential, the query and the other parameters. If the promise is
  fulfilled it answers 200, whatever the upstream status was, with the upstream body as
  it came and the two cross-origin headers; if it is rejected it answers 500 with
  \<open>Proxy Error:\<close> and the error's message, and no cross-origin header.
\<close>

theorem relay_outcomes:
  "((map_of q ''access_key'' \<in> {None, Some []} \<or> map_of q ''query'' \<in> {None, Some []}) \<longrightarrow>
      weather_handler q upstream
        = (\<lparr>status = 400, headers = [],
            json = ErrorInfo ''Missing access_key or query parameters.''\<rparr>, []))
   \<and> (map_of q ''access_key'' = Some (a # as) \<and> map_of q ''query'' = Some (b # bs) \<longrightarrow>
        (let req = \<lparr>url = ''http://api.weatherstack.com/''
                          @ (case map_of q ''endpoint'' of None \<Rightarrow> ''current'' | Some e \<Rightarrow> e),
                    params = [(''access_key'', a # as), (''query'', b # bs)]
                          @ filter (\<lambda>(k, v). k \<noteq> ''endpoint'' \<and> k \<noteq> ''access_key'' \<and> k \<noteq> ''query'') q\<rparr>
         in snd (weather_handler q upstream) = [req]
            \<and> (\<forall>st d. upstream req = Fulfilled st d \<longrightarrow>
                  fst (weather_handler q upstream)
                    = \<lparr>status = 200,
                       headers = [(''Access-Control-Allow-Origin'', ''*''),
                                  (''Access-Control-Allow-Methods'', ''GET, OPTIONS'')],
                       json = Upstream d\<rparr>)
            \<and> (\<forall>err. upstream req = Rejected err \<longrightarrow>
                  fst (weather_handler q upstream)
                    = \<lparr>status = 500, headers = [],
                       json = ErrorInfo (''Proxy Error: '' @ err_message err)\<rparr>)))"
  by (auto simp: weather_handler_def Let_def split: option.splits list.splits axios_result.splits)

text \<open>
  Witness for C4: a request without credential, and a historical request answered once
  with a body and once with a connection failure.
\<close>

theorem relay_outcomes_witness:
  "map_of [(''query'', ''london'')] ''access_key'' \<in> {None, Some []}
   \<and> weather_handler [(''query'', ''london'')] (\<lambda>req. Fulfilled 200 (Payload (sample_report ''London'')))
       = (\<lparr>status = 400, headers = [],
           json = ErrorInfo ''Missing access_key or query parameters.''\<rparr>, [])
   \<and> (let q = [(''access_key'', ''k''), (''query'', ''london''), (''endpoint'', ''historical''),
                 (''historical_date'', ''2024-01-01'')];
          req = \<lparr>url = ''http://api.weatherstack.com/historical'',
                  params = [(''access_key'', ''k''), (''query'', ''london''),
                            (''historical_date'', ''2024-01-01'')]\<rparr>
      in map_of q ''access_key'' = Some ''k'' \<and> map_of q ''query'' = Some ''london''
         \<and> weather_handler q (\<lambda>req. Fulfilled 200 (api_failure 603))
             = (\<lparr>status = 200,
                 headers = [(''Access-Control-Allow-Origin'', ''*''),
                            (''Access-Control-Allow-Methods'', ''GET, OPTIONS'')],
                 json = Upstream (api_failure 603)\<rparr>, [req])
         \<and> weather_handler q (\<lambda>req. (Rejected (AxiosError None (Some ''ECONNREFUSED'') ''connect ECONNREFUSED'') :: data axios_result))
             = (\<lparr>status = 500, headers = [],
                 json = ErrorInfo ''Proxy Error: connect ECONNREFUSED''\<rparr>, [req]))"
proof -
  let ?q = "[(''access_key'', ''k''), (''query'', ''london''), (''endpoint'', ''historical''),
                 (''historical_date'', ''2024-01-01'')]"
  note a = relay_outcomes [where q = "[(''query'', ''london'')]"
      and upstream = "\<lambda>req. Fulfilled 200 (Payload (sample_report ''London''))"
      and a = "CHR ''k''" and as = "[]" and b = "CHR ''l''" and bs = "''ondon''"]
  note b = relay_outcomes [where q = ?q
      and upstream = "\<lambda>req. Fulfilled 200 (api_failure 603)"
      and a = "CHR ''k''" and as = "[]" and b = "CHR ''l''" and bs = "''ondon''"]
  note c = relay_outcomes [where q = ?q
      and upstream = "\<lambda>req. (Rejected (AxiosError None (Some ''ECONNREFUSED'') ''connect ECONNREFUSED'') :: data axios_result)"
      and a = "CHR ''k''" and as = "[]" and b = "CHR ''l''" and bs = "''ondon''"]
  from a b c show ?thesis unfolding Let_def by (simp add: weather_handler_def)
qed

text \<open>
  C10: a relay request with credential and query and no \<open>endpoint\<close> parameter is not
  refused: the one upstream call goes to the \<open>current\<close> endpoint, with the credential,
  the query and the remaining parameters.
\<close>

theorem relay_default_endpoint:
  assumes "map_of q ''endpoint'' = None"
    and "map_of q ''access_key'' = Some (a # as)"
    and "map_of q ''query'' = Some (b # bs)"
  shows "snd (weather_handler q upstream)
           = [\<lparr>url = ''http://api.weatherstack.com/current'',
               params = [(''access_key'', a # as), (''query'', b # bs)]
                  @ filter (\<lambda>(k, v). k \<noteq> ''endpoint'' \<and> k \<noteq> ''access_key'' \<and> k \<noteq> ''query'') q\<rparr>]
         \<and> status (fst (weather_handler q upstream)) \<noteq> 400"
  using assms by (simp add: weather_handler_def Let_def split: axios_result.splits)

text \<open>
  Witness for C10: credential and query only.
\<close>

theorem relay_default_endpoint_witness:
  "(let q = [(''access_key'', ''k''), (''query'', ''london'')]
    in map_of q ''endpoint'' = None
       \<and> map_of q ''access_key'' = Some ''k''
       \<and> map_of q ''query'' = Some ''london''
       \<and> snd (weather_handler q (\<lambda>req. Fulfilled 200 (Payload (sample_report ''London''))))
           = [\<lparr>url = ''http://api.weatherstack.com/current'',
               params = [(''access_key'', ''k''), (''query'', ''london'')]\<rparr>]
       \<and> status (fst (weather_handler q (\<lambda>req. Fulfilled 200 (Payload (sample_report ''London''))))) = 200)"
proof -
  let ?q = "[(''access_key'', ''k''), (''query'', ''london'')]"
  have h: "map_of ?q ''endpoint'' = None" "map_of ?q ''access_key'' = Some (CHR ''k'' # [])"
    "map_of ?q ''query'' = Some (CHR ''l'' # ''ondon'')"
    by simp_all
  from relay_default_endpoint [OF h, of "\<lambda>req. Fulfilled 200 (Payload (sample_report ''London''))"]
  show ?thesis using h unfolding Let_def by (simp add: weather_handler_def)
qed

end
